theory Spec2Isabelle
  imports Main "HOL-Library.Word"
begin

section \<open>The alarm value type of ros\_alarms (include/alarm\_proxy.hpp)\<close>

text \<open>
  The header declares one struct, \<^verbatim>\<open>AlarmProxy\<close>, with six public data members, three
  constructors and the member function \<^verbatim>\<open>as_msg\<close>. The specification calls the struct
  AlarmEvent, its member \<^verbatim>\<open>node_name\<close> reporter\_id, \<^verbatim>\<open>problem_description\<close> description
  and \<^verbatim>\<open>json_parameters\<close> parameters. The theory keeps the names of the header.

  \<^verbatim>\<open>std::string\<close> is a sequence of bytes: \<^typ>\<open>string\<close>, a list of 8-bit characters.
  \<^verbatim>\<open>uint8_t\<close> is \<^typ>\<open>8 word\<close>.
\<close>

subsection \<open>The message type\<close>

text \<open>
  Modelled from the spec: the message type \<^verbatim>\<open>ros_alarms::Alarm\<close> is generated from a message
  definition that the header only includes (\<^verbatim>\<open>ros_alarms/Alarm.h\<close>). Its six fields are
  those of the wire table of the specification, and they are the six fields the header
  reads and writes.
\<close>

record Alarm =
  alarm_name :: string
  raised :: bool
  node_name :: string
  problem_description :: string
  parameters :: string
  severity :: "8 word"

subsection \<open>The struct\<close>

record AlarmProxy =
  alarm_name :: string
  raised :: bool
  node_name :: string
  problem_description :: string
  json_parameters :: string
  severity :: "8 word"

text \<open>
  No constructor has a member initialiser list, so before a constructor body runs every
  member is default-initialised: the four \<^verbatim>\<open>std::string\<close> members are empty, and the two
  scalar members \<^verbatim>\<open>raised\<close> and \<^verbatim>\<open>severity\<close> hold whatever the storage of the object held.
  That content is an input of the model.
\<close>

record indeterminate =
  ind_raised :: bool
  ind_severity :: "8 word"

definition default_members :: "indeterminate \<Rightarrow> AlarmProxy" where
  "default_members u =
     \<lparr>alarm_name = [], raised = ind_raised u, node_name = [],
      problem_description = [], json_parameters = [], severity = ind_severity u\<rparr>"

subsection \<open>The full-form constructor\<close>

text \<open>
  \<^verbatim>\<open>AlarmProxy(std::string alarm_name, bool raised, std::string node_name,
             std::string problem_description, std::string json_parameters,
             uint8_t severity)\<close>

  Each parameter has the name of a member. Inside the body an unqualified name denotes the
  parameter, which hides the member, so \<^verbatim>\<open>alarm_name = alarm_name;\<close> reads the parameter and
  writes the parameter. The frame of a call holds the object under construction and the
  six parameters; every statement of the body is one update of the frame.
\<close>

record params =
  p_alarm_name :: string
  p_raised :: bool
  p_node_name :: string
  p_problem_description :: string
  p_json_parameters :: string
  p_severity :: "8 word"

record 'o full_frame =
  this :: 'o
  args :: params

definition full_body :: "'o full_frame \<Rightarrow> 'o full_frame" where
  "full_body f0 =
     (let f1 = f0\<lparr>args := (args f0)\<lparr>p_alarm_name := p_alarm_name (args f0)\<rparr>\<rparr>;
          f2 = f1\<lparr>args := (args f1)\<lparr>p_raised := p_raised (args f1)\<rparr>\<rparr>;
          f3 = f2\<lparr>args := (args f2)\<lparr>p_node_name := p_node_name (args f2)\<rparr>\<rparr>;
          f4 = f3\<lparr>args := (args f3)\<lparr>p_problem_description := p_problem_description (args f3)\<rparr>\<rparr>;
          f5 = f4\<lparr>args := (args f4)\<lparr>p_json_parameters := p_json_parameters (args f4)\<rparr>\<rparr>;
          f6 = f5\<lparr>args := (args f5)\<lparr>p_severity := p_severity (args f5)\<rparr>\<rparr>
      in f6)"

definition AlarmProxy_full ::
  "indeterminate \<Rightarrow> string \<Rightarrow> bool \<Rightarrow> string \<Rightarrow> string \<Rightarrow> string \<Rightarrow> 8 word \<Rightarrow> AlarmProxy" where
  "AlarmProxy_full u an r nn pd jp sv =
     this (full_body
       \<lparr>this = default_members u,
        args = \<lparr>p_alarm_name = an, p_raised = r, p_node_name = nn,
                p_problem_description = pd, p_json_parameters = jp, p_severity = sv\<rparr>\<rparr>)"

subsection \<open>The implicit-reporter constructor\<close>

text \<open>
  \<^verbatim>\<open>*this = AlarmProxy(alarm_name, raised, ros::this_node::getName(),
                      problem_description, json_parameters, severity);\<close>

  The struct declares no assignment operator, so the assignment is the implicit one: it
  assigns the six members one by one.
\<close>

definition assign :: "AlarmProxy \<Rightarrow> AlarmProxy \<Rightarrow> AlarmProxy" where
  "assign lhs rhs =
     lhs\<lparr>alarm_name := alarm_name rhs,
         raised := raised rhs,
         node_name := node_name rhs,
         problem_description := problem_description rhs,
         json_parameters := json_parameters rhs,
         severity := severity rhs\<rparr>"

text \<open>
  \<^verbatim>\<open>ros::this_node::getName()\<close> belongs to the ROS client library; the string it returns is
  the parameter \<open>getName\<close>. The object under construction and the temporary each have
  storage of their own: \<open>u\<close> and \<open>ut\<close>.
\<close>

definition AlarmProxy_implicit ::
  "indeterminate \<Rightarrow> indeterminate \<Rightarrow> string \<Rightarrow>
     string \<Rightarrow> bool \<Rightarrow> string \<Rightarrow> string \<Rightarrow> 8 word \<Rightarrow> AlarmProxy" where
  "AlarmProxy_implicit u ut getName an r pd jp sv =
     assign (default_members u) (AlarmProxy_full ut an r getName pd jp sv)"

subsection \<open>The constructor from a message\<close>

text \<open>
  The parameter is called \<^verbatim>\<open>msg\<close>, which hides no member: here every statement writes a
  member of the object.
\<close>

definition AlarmProxy_msg :: "indeterminate \<Rightarrow> Alarm \<Rightarrow> AlarmProxy" where
  "AlarmProxy_msg u msg =
     (let t0 = default_members u;
          t1 = t0\<lparr>alarm_name := Alarm.alarm_name msg\<rparr>;
          t2 = t1\<lparr>raised := Alarm.raised msg\<rparr>;
          t3 = t2\<lparr>node_name := Alarm.node_name msg\<rparr>;
          t4 = t3\<lparr>problem_description := Alarm.problem_description msg\<rparr>;
          t5 = t4\<lparr>json_parameters := Alarm.parameters msg\<rparr>;
          t6 = t5\<lparr>severity := Alarm.severity msg\<rparr>
      in t6)"

subsection \<open>The conversion to a message\<close>

text \<open>
  \<^verbatim>\<open>as_msg\<close> is not declared \<^verbatim>\<open>const\<close>, so the model threads the receiver through the
  body: the frame holds the receiver and the local \<^verbatim>\<open>a\<close>, and the call returns the message
  together with the receiver as the body leaves it. The default constructor of the
  message type is generated code; the message it builds is the parameter \<open>a0\<close>.
\<close>

record as_msg_frame =
  self :: AlarmProxy
  a :: Alarm

definition as_msg_body :: "as_msg_frame \<Rightarrow> as_msg_frame" where
  "as_msg_body f0 =
     (let f1 = f0\<lparr>a := (a f0)\<lparr>Alarm.alarm_name := alarm_name (self f0)\<rparr>\<rparr>;
          f2 = f1\<lparr>a := (a f1)\<lparr>Alarm.raised := raised (self f1)\<rparr>\<rparr>;
          f3 = f2\<lparr>a := (a f2)\<lparr>Alarm.node_name := node_name (self f2)\<rparr>\<rparr>;
          f4 = f3\<lparr>a := (a f3)\<lparr>Alarm.problem_description := problem_description (self f3)\<rparr>\<rparr>;
          f5 = f4\<lparr>a := (a f4)\<lparr>Alarm.parameters := json_parameters (self f4)\<rparr>\<rparr>;
          f6 = f5\<lparr>a := (a f5)\<lparr>Alarm.severity := severity (self f5)\<rparr>\<rparr>
      in f6)"

definition as_msg_call :: "Alarm \<Rightarrow> AlarmProxy \<Rightarrow> Alarm \<times> AlarmProxy" where
  "as_msg_call a0 e = (let f = as_msg_body \<lparr>self = e, a = a0\<rparr> in (a f, self f))"

definition as_msg :: "Alarm \<Rightarrow> AlarmProxy \<Rightarrow> Alarm" where
  "as_msg a0 e = fst (as_msg_call a0 e)"

subsection \<open>Operations on an existing object\<close>

text \<open>
  Two operations of the header act on an object that already exists: a call of \<^verbatim>\<open>as_msg\<close>
  (the argument of \<open>Call_as_msg\<close> is the default-constructed message of that call) and the
  implicit assignment operator, the one the implicit-reporter constructor applies to
  \<^verbatim>\<open>*this\<close>. The six data members are public and not \<^verbatim>\<open>const\<close>, so a caller can also write
  each of them directly; an assignment writes all six at once.
\<close>

datatype operation = Call_as_msg Alarm | Assign AlarmProxy

fun apply_operation :: "operation \<Rightarrow> AlarmProxy \<Rightarrow> AlarmProxy" where
  "apply_operation (Call_as_msg a0) e = snd (as_msg_call a0 e)"
| "apply_operation (Assign rhs) e = assign e rhs"

fun apply_operations :: "operation list \<Rightarrow> AlarmProxy \<Rightarrow> AlarmProxy" where
  "apply_operations [] e = e"
| "apply_operations (c # cs) e = apply_operations cs (apply_operation c e)"

section \<open>Members that were never written\<close>

text \<open>
  The definitions above give a scalar member that no statement wrote the content of the
  storage, which is what the compiled code reads. The language says more: such a member
  has an indeterminate value, and evaluating an indeterminate \<^verbatim>\<open>bool\<close> is undefined
  behaviour, while a \<^verbatim>\<open>uint8_t\<close> (an \<^verbatim>\<open>unsigned char\<close>) may be copied into another
  \<^verbatim>\<open>uint8_t\<close>, which is then indeterminate too. The second model records for each scalar
  whether it was written. Reading an unwritten \<^verbatim>\<open>bool\<close> is the one fault; the strings are
  always constructed.
\<close>

datatype 'a slot = Unwritten | Written 'a

datatype fault = Indeterminate_read

fun read_bool :: "bool slot \<Rightarrow> fault + bool" where
  "read_bool Unwritten = Inl Indeterminate_read"
| "read_bool (Written b) = Inr b"

record object =
  o_alarm_name :: string
  o_raised :: "bool slot"
  o_node_name :: string
  o_problem_description :: string
  o_json_parameters :: string
  o_severity :: "8 word slot"

record message =
  w_alarm_name :: string
  w_raised :: "bool slot"
  w_node_name :: string
  w_problem_description :: string
  w_parameters :: string
  w_severity :: "8 word slot"

text \<open>An object and a message all of whose members were written.\<close>

definition object_of :: "AlarmProxy \<Rightarrow> object" where
  "object_of e =
     \<lparr>o_alarm_name = alarm_name e, o_raised = Written (raised e),
      o_node_name = node_name e, o_problem_description = problem_description e,
      o_json_parameters = json_parameters e, o_severity = Written (severity e)\<rparr>"

definition message_of :: "Alarm \<Rightarrow> message" where
  "message_of m =
     \<lparr>w_alarm_name = Alarm.alarm_name m, w_raised = Written (Alarm.raised m),
      w_node_name = Alarm.node_name m,
      w_problem_description = Alarm.problem_description m,
      w_parameters = Alarm.parameters m, w_severity = Written (Alarm.severity m)\<rparr>"

text \<open>The members before a constructor body runs.\<close>

definition fresh_object :: object where
  "fresh_object =
     \<lparr>o_alarm_name = [], o_raised = Unwritten, o_node_name = [],
      o_problem_description = [], o_json_parameters = [], o_severity = Unwritten\<rparr>"

text \<open>
  The full-form constructor: the same body, \<open>full_body\<close>. It reads and writes parameters
  only, and a parameter always has a value.
\<close>

definition AlarmProxy_full_checked ::
  "string \<Rightarrow> bool \<Rightarrow> string \<Rightarrow> string \<Rightarrow> string \<Rightarrow> 8 word \<Rightarrow> object" where
  "AlarmProxy_full_checked an r nn pd jp sv =
     this (full_body
       \<lparr>this = fresh_object,
        args = \<lparr>p_alarm_name = an, p_raised = r, p_node_name = nn,
                p_problem_description = pd, p_json_parameters = jp, p_severity = sv\<rparr>\<rparr>)"

text \<open>
  The implicit assignment, member by member in the order of declaration: the second
  member is the \<^verbatim>\<open>bool\<close>, whose value is read from the right-hand side.
\<close>

definition assign_checked :: "object \<Rightarrow> object \<Rightarrow> fault + object" where
  "assign_checked lhs rhs =
     (let l1 = lhs\<lparr>o_alarm_name := o_alarm_name rhs\<rparr> in
      case read_bool (o_raised rhs) of
        Inl f \<Rightarrow> Inl f
      | Inr b \<Rightarrow>
          (let l2 = l1\<lparr>o_raised := Written b\<rparr>;
               l3 = l2\<lparr>o_node_name := o_node_name rhs\<rparr>;
               l4 = l3\<lparr>o_problem_description := o_problem_description rhs\<rparr>;
               l5 = l4\<lparr>o_json_parameters := o_json_parameters rhs\<rparr>;
               l6 = l5\<lparr>o_severity := o_severity rhs\<rparr>
           in Inr l6))"

definition AlarmProxy_implicit_checked ::
  "string \<Rightarrow> string \<Rightarrow> bool \<Rightarrow> string \<Rightarrow> string \<Rightarrow> 8 word \<Rightarrow> fault + object" where
  "AlarmProxy_implicit_checked getName an r pd jp sv =
     assign_checked fresh_object (AlarmProxy_full_checked an r getName pd jp sv)"

definition AlarmProxy_msg_checked :: "message \<Rightarrow> fault + object" where
  "AlarmProxy_msg_checked msg =
     (let t0 = fresh_object;
          t1 = t0\<lparr>o_alarm_name := w_alarm_name msg\<rparr> in
      case read_bool (w_raised msg) of
        Inl f \<Rightarrow> Inl f
      | Inr b \<Rightarrow>
          (let t2 = t1\<lparr>o_raised := Written b\<rparr>;
               t3 = t2\<lparr>o_node_name := w_node_name msg\<rparr>;
               t4 = t3\<lparr>o_problem_description := w_problem_description msg\<rparr>;
               t5 = t4\<lparr>o_json_parameters := w_parameters msg\<rparr>;
               t6 = t5\<lparr>o_severity := w_severity msg\<rparr>
           in Inr t6))"

text \<open>\<^verbatim>\<open>as_msg\<close>: the message returned and the receiver, or the fault.\<close>

definition as_msg_checked :: "message \<Rightarrow> object \<Rightarrow> fault + message \<times> object" where
  "as_msg_checked a0 e =
     (let a1 = a0\<lparr>w_alarm_name := o_alarm_name e\<rparr> in
      case read_bool (o_raised e) of
        Inl f \<Rightarrow> Inl f
      | Inr b \<Rightarrow>
          (let a2 = a1\<lparr>w_raised := Written b\<rparr>;
               a3 = a2\<lparr>w_node_name := o_node_name e\<rparr>;
               a4 = a3\<lparr>w_problem_description := o_problem_description e\<rparr>;
               a5 = a4\<lparr>w_parameters := o_json_parameters e\<rparr>;
               a6 = a5\<lparr>w_severity := o_severity e\<rparr>
           in Inr (a6, e)))"

section \<open>Basic facts\<close>

lemma full_body_this: "this (full_body f) = this f"
  by (simp add: full_body_def Let_def)

lemma full_body_args: "args (full_body f) = args f"
  by (simp add: full_body_def Let_def)

lemma AlarmProxy_full_default: "AlarmProxy_full u an r nn pd jp sv = default_members u"
  by (simp add: AlarmProxy_full_def full_body_this)

lemma assign_rhs: "assign lhs rhs = rhs"
  by (simp add: assign_def)

lemma AlarmProxy_msg_fields:
  "AlarmProxy_msg u msg =
     \<lparr>alarm_name = Alarm.alarm_name msg, raised = Alarm.raised msg,
      node_name = Alarm.node_name msg,
      problem_description = Alarm.problem_description msg,
      json_parameters = Alarm.parameters msg, severity = Alarm.severity msg\<rparr>"
  by (simp add: AlarmProxy_msg_def default_members_def Let_def)

lemma as_msg_call_fields:
  "as_msg_call a0 e =
     (\<lparr>Alarm.alarm_name = alarm_name e, Alarm.raised = raised e,
       Alarm.node_name = node_name e,
       Alarm.problem_description = problem_description e,
       Alarm.parameters = json_parameters e, Alarm.severity = severity e\<rparr>, e)"
  by (simp add: as_msg_call_def as_msg_body_def Let_def)

lemma as_msg_fields:
  "as_msg a0 e =
     \<lparr>Alarm.alarm_name = alarm_name e, Alarm.raised = raised e,
      Alarm.node_name = node_name e,
      Alarm.problem_description = problem_description e,
      Alarm.parameters = json_parameters e, Alarm.severity = severity e\<rparr>"
  by (simp add: as_msg_def as_msg_call_fields)

lemma as_msg_call_receiver: "snd (as_msg_call a0 e) = e"
  by (simp add: as_msg_call_fields)

lemma AlarmProxy_implicit_default:
  "AlarmProxy_implicit u ut getName an r pd jp sv = default_members ut"
  by (simp add: AlarmProxy_implicit_def assign_rhs AlarmProxy_full_default)

lemma AlarmProxy_full_checked_fresh:
  "AlarmProxy_full_checked an r nn pd jp sv = fresh_object"
  by (simp add: AlarmProxy_full_checked_def full_body_this)

text \<open>
  On objects and messages whose members were all written the second model never faults,
  and it computes what the first computes.
\<close>

lemma AlarmProxy_msg_checked_written:
  "AlarmProxy_msg_checked (message_of m) = Inr (object_of (AlarmProxy_msg u m))"
  by (simp add: AlarmProxy_msg_checked_def message_of_def object_of_def fresh_object_def
      AlarmProxy_msg_fields Let_def)

lemma as_msg_checked_written:
  "as_msg_checked (message_of a0) (object_of e) =
     Inr (message_of (as_msg a0 e), object_of e)"
  by (simp add: as_msg_checked_def message_of_def object_of_def as_msg_fields Let_def)

lemma assign_checked_written:
  "assign_checked lhs (object_of rhs) = Inr (object_of rhs)"
  by (simp add: assign_checked_def object_of_def Let_def)

section \<open>The conversions\<close>

text \<open>
  C4. For every object \<open>e\<close>, the message returned by \<^verbatim>\<open>as_msg\<close> has \<^verbatim>\<open>node_name\<close> equal to the
  reporter (\<^verbatim>\<open>node_name\<close>) of \<open>e\<close>, \<^verbatim>\<open>problem_description\<close> equal to the description of \<open>e\<close>,
  and \<^verbatim>\<open>alarm_name\<close>, \<^verbatim>\<open>raised\<close>, \<^verbatim>\<open>parameters\<close> and \<^verbatim>\<open>severity\<close> equal to the corresponding
  members of \<open>e\<close>, whatever the default-constructed message was.
\<close>

theorem as_msg_field_mapping:
  "Alarm.node_name (as_msg a0 e) = node_name e \<and>
   Alarm.problem_description (as_msg a0 e) = problem_description e \<and>
   Alarm.alarm_name (as_msg a0 e) = alarm_name e \<and>
   Alarm.raised (as_msg a0 e) = raised e \<and>
   Alarm.parameters (as_msg a0 e) = json_parameters e \<and>
   Alarm.severity (as_msg a0 e) = severity e"
  by (simp add: as_msg_fields)

text \<open>
  C5. For every message \<open>m\<close>, the constructor from a message builds an object whose
  reporter (\<^verbatim>\<open>node_name\<close>) is the \<^verbatim>\<open>node_name\<close> of \<open>m\<close>, whose description is the
  \<^verbatim>\<open>problem_description\<close> of \<open>m\<close>, whose parameters are the \<^verbatim>\<open>parameters\<close> of \<open>m\<close>, and whose
  \<^verbatim>\<open>alarm_name\<close>, \<^verbatim>\<open>raised\<close> and \<^verbatim>\<open>severity\<close> are those of \<open>m\<close>, whatever the storage of the
  object held before.
\<close>

theorem from_msg_field_mapping:
  "node_name (AlarmProxy_msg u m) = Alarm.node_name m \<and>
   problem_description (AlarmProxy_msg u m) = Alarm.problem_description m \<and>
   json_parameters (AlarmProxy_msg u m) = Alarm.parameters m \<and>
   alarm_name (AlarmProxy_msg u m) = Alarm.alarm_name m \<and>
   raised (AlarmProxy_msg u m) = Alarm.raised m \<and>
   severity (AlarmProxy_msg u m) = Alarm.severity m"
  by (simp add: AlarmProxy_msg_fields)

text \<open>
  C3. Round trip: for every object \<open>e\<close>, building an object from the message of \<open>e\<close> gives
  \<open>e\<close> back, and for every message \<open>m\<close>, the message of the object built from \<open>m\<close> is \<open>m\<close>.
  Both records have exactly the six fields, so the equalities are field by field.
\<close>

theorem round_trip:
  "AlarmProxy_msg u (as_msg a0 e) = e \<and> as_msg a0 (AlarmProxy_msg u m) = m"
proof
  show "AlarmProxy_msg u (as_msg a0 e) = e"
    by (cases e) (simp add: AlarmProxy_msg_fields as_msg_fields)
next
  show "as_msg a0 (AlarmProxy_msg u m) = m"
    by (cases m) (simp add: AlarmProxy_msg_fields as_msg_fields)
qed

text \<open>
  C8. \<^verbatim>\<open>as_msg\<close> leaves its receiver as it was: after the call each of the six members of
  the object holds the value it held before.
\<close>

theorem as_msg_receiver_unchanged:
  "alarm_name (snd (as_msg_call a0 e)) = alarm_name e \<and>
   raised (snd (as_msg_call a0 e)) = raised e \<and>
   node_name (snd (as_msg_call a0 e)) = node_name e \<and>
   problem_description (snd (as_msg_call a0 e)) = problem_description e \<and>
   json_parameters (snd (as_msg_call a0 e)) = json_parameters e \<and>
   severity (snd (as_msg_call a0 e)) = severity e"
  by (simp add: as_msg_call_receiver)

text \<open>
  C9, as the header has it. No sequence of calls of \<^verbatim>\<open>as_msg\<close> changes the object they are
  made on: every member read after the calls has the value it had before them. The object
  is not immutable all the same: an assignment replaces its members.
\<close>

theorem as_msg_calls_receiver_unchanged:
  "apply_operations (map Call_as_msg cs) e = e"
proof (induction cs arbitrary: e)
  case Nil
  show ?case by simp
next
  case (Cons c cs)
  have "apply_operation (Call_as_msg c) e = e"
    by (simp add: as_msg_call_receiver)
  with Cons.IH [of e] show ?case by simp
qed

text \<open>
  C9, as the specification states it, fails: an assignment is an operation on an existing
  object and it replaces the members. Here the alarm name read before the assignment is
  \<open>overheat\<close> and the one read after it is \<open>battery-low\<close>, and the alarm is raised before
  and cleared after.
\<close>

theorem assignment_changes_members:
  "alarm_name (apply_operations
      [Assign \<lparr>alarm_name = ''battery-low'', raised = False, node_name = ''bms'',
               problem_description = [], json_parameters = [], severity = 0\<rparr>]
      \<lparr>alarm_name = ''overheat'', raised = True, node_name = ''motor_driver'',
       problem_description = [], json_parameters = [], severity = 3\<rparr>)
     \<noteq> alarm_name
      \<lparr>alarm_name = ''overheat'', raised = True, node_name = ''motor_driver'',
       problem_description = [], json_parameters = [], severity = 3\<rparr>"
  by (simp add: assign_rhs)

section \<open>The constructors\<close>

text \<open>
  C10. Whatever the arguments of the full-form constructor, the four string members of the
  object it builds are empty: the body leaves the object as default initialisation made
  it, since each statement assigns a parameter to itself.
\<close>

theorem full_form_strings_empty:
  "alarm_name (AlarmProxy_full u an r nn pd jp sv) = [] \<and>
   node_name (AlarmProxy_full u an r nn pd jp sv) = [] \<and>
   problem_description (AlarmProxy_full u an r nn pd jp sv) = [] \<and>
   json_parameters (AlarmProxy_full u an r nn pd jp sv) = [] \<and>
   this (full_body f) = this f"
  by (simp add: AlarmProxy_full_default default_members_def full_body_this)

text \<open>
  C6. The implicit-reporter constructor and the full-form constructor called with the same
  arguments and the reporter the provider returned, here \<open>/motor\<close>, do not build equal
  objects. Neither stores an argument, so \<^verbatim>\<open>raised\<close> and \<^verbatim>\<open>severity\<close> of each object are
  what the storage of that construction held (the storage of the temporary for the
  implicit form): here cleared and 96 in one, raised and 171 in the other. The reporter
  of both is the empty string, not \<open>/motor\<close>.
\<close>

theorem implicit_differs_from_full:
  "AlarmProxy_implicit \<lparr>ind_raised = False, ind_severity = 0\<rparr>
      \<lparr>ind_raised = False, ind_severity = 96\<rparr>
      ''/motor'' ''overheat'' True ''temperature above limit'' ''{}'' 3 =
     \<lparr>alarm_name = [], raised = False, node_name = [],
      problem_description = [], json_parameters = [], severity = 96\<rparr> \<and>
   AlarmProxy_full \<lparr>ind_raised = True, ind_severity = 171\<rparr>
      ''overheat'' True ''/motor'' ''temperature above limit'' ''{}'' 3 =
     \<lparr>alarm_name = [], raised = True, node_name = [],
      problem_description = [], json_parameters = [], severity = 171\<rparr> \<and>
   AlarmProxy_implicit \<lparr>ind_raised = False, ind_severity = 0\<rparr>
      \<lparr>ind_raised = False, ind_severity = 96\<rparr>
      ''/motor'' ''overheat'' True ''temperature above limit'' ''{}'' 3 \<noteq>
   AlarmProxy_full \<lparr>ind_raised = True, ind_severity = 171\<rparr>
      ''overheat'' True ''/motor'' ''temperature above limit'' ''{}'' 3"
  by (simp add: AlarmProxy_implicit_default AlarmProxy_full_default default_members_def)

text \<open>
  C1. The full-form constructor does not store its arguments. Called with the alarm name
  \<open>overheat\<close>, raised, the reporter \<open>motor_driver\<close>, a description, the parameters \<open>{}\<close>
  and severity 3, it builds an object whose four strings are empty and whose \<^verbatim>\<open>raised\<close> and
  \<^verbatim>\<open>severity\<close> are what the storage held, for every content \<open>u\<close> of the storage.
\<close>

theorem full_form_drops_arguments:
  "AlarmProxy_full u ''overheat'' True ''motor_driver'' ''temperature above limit'' ''{}'' 3 =
     \<lparr>alarm_name = [], raised = ind_raised u, node_name = [],
      problem_description = [], json_parameters = [], severity = ind_severity u\<rparr>"
  by (simp add: AlarmProxy_full_default default_members_def)

text \<open>
  C2. The scenario of the specification: the object is built by the full-form constructor,
  converted by \<^verbatim>\<open>as_msg\<close> and built again from the message. The object that comes back has
  four empty strings, and its \<^verbatim>\<open>raised\<close> and \<^verbatim>\<open>severity\<close> are what the storage of the first
  object held: the alarm name \<open>battery-low\<close>, the reporter, the description and the
  parameters are lost in the first step, before any conversion.
\<close>

theorem scenario_round_trip_fields_lost:
  \<open>AlarmProxy_msg u' (as_msg a0
      (AlarmProxy_full u ''battery-low'' True ''node-42'' ''cell voltage under threshold''
         ''{"cell":3,"volts":2.9}'' 200)) =
     \<lparr>alarm_name = [], raised = ind_raised u, node_name = [],
      problem_description = [], json_parameters = [], severity = ind_severity u\<rparr>\<close>
  by (simp add: AlarmProxy_full_default default_members_def AlarmProxy_msg_fields
      as_msg_fields)

section \<open>Totality\<close>

text \<open>
  The header has no \<^verbatim>\<open>throw\<close>, no assertion, no early return and no test of an argument.
  What can go wrong is the read of a member that was never written.

  C7. Two operations do not return a result. The implicit-reporter constructor, on every
  input, assigns to \<^verbatim>\<open>*this\<close> the temporary that the full-form constructor built, and the
  assignment reads the member \<^verbatim>\<open>raised\<close> of the temporary, which no statement wrote.
  \<^verbatim>\<open>as_msg\<close> on an object built by the full-form constructor reads the same member of its
  receiver.
\<close>

theorem unwritten_raised_is_read:
  "AlarmProxy_implicit_checked p an r pd jp sv = Inl Indeterminate_read \<and>
   as_msg_checked a0 (AlarmProxy_full_checked an r nn pd jp sv) = Inl Indeterminate_read"
  by (simp add: AlarmProxy_implicit_checked_def AlarmProxy_full_checked_fresh
      assign_checked_def as_msg_checked_def fresh_object_def Let_def)

text \<open>
  The boundary values: severity 0 and 255, empty strings, and an alarm name that is not
  ASCII (the two bytes of the UTF-8 encoding of U+00E9 followed by \<open>tat\<close>).
\<close>

lemma boundary_values_round_trip:
  "as_msg a0 (AlarmProxy_msg u
      \<lparr>Alarm.alarm_name = [CHR 0xC3, CHR 0xA9] @ ''tat'', Alarm.raised = False,
       Alarm.node_name = [], Alarm.problem_description = [], Alarm.parameters = [],
       Alarm.severity = 255\<rparr>) =
      \<lparr>Alarm.alarm_name = [CHR 0xC3, CHR 0xA9] @ ''tat'', Alarm.raised = False,
       Alarm.node_name = [], Alarm.problem_description = [], Alarm.parameters = [],
       Alarm.severity = 255\<rparr> \<and>
   severity (AlarmProxy_msg u
      \<lparr>Alarm.alarm_name = [], Alarm.raised = True,
       Alarm.node_name = [], Alarm.problem_description = [], Alarm.parameters = [],
       Alarm.severity = 0\<rparr>) = 0 \<and>
   (255 :: 8 word) \<noteq> 0 \<and> (255 :: 8 word) + 1 = 0"
  by (simp add: AlarmProxy_msg_fields as_msg_fields)

end
